theory Spec2Isabelle
  imports Main
begin

section \<open>Data of the notification poller\<close>

text \<open>
  Python exceptions are values. The constructors name the places of the two source
  files that raise, and \<open>External\<close> stands for whatever a collaborator that is not
  part of these files (the Moodle API client, a channel transport) raises.
\<close>

datatype error =
    ConfigValueError string string
  | IntTypeError
  | IntValueError string
  | NoneSubscript
  | KeyError string
  | External string

text \<open>
  A notification is a Python dict. The handler reads one key of it, \<open>id\<close>, whose
  value is an integer (the attribute that stores it is declared \<open>Optional[int]\<close>);
  the key can also be missing or hold \<open>None\<close>. The other entries are carried along
  unread. The dict is empty, and so falsy in a Python condition, exactly when it has
  neither an \<open>id\<close> entry nor any other entry.
\<close>

datatype id_entry = NoKey | Null | IntId int

record notification =
  id_of :: id_entry
  others :: "(string \<times> string) list"

definition truthy :: "notification \<Rightarrow> bool" where
  "truthy n = (\<not> (id_of n = NoKey \<and> others n = []))"

text \<open>\<open>notification.get("id")\<close>: the value, or \<open>None\<close> for a missing key or a null.\<close>

definition get_id :: "notification \<Rightarrow> int option" where
  "get_id n = (case id_of n of NoKey \<Rightarrow> None | Null \<Rightarrow> None | IntId i \<Rightarrow> Some i)"

text \<open>
  The response of \<open>get_popup_notifications\<close> is a dict as well; only its
  \<open>notifications\<close> entry is read, with \<open>[]\<close> as the default of a missing key.
\<close>

type_synonym response = "notification list option"

definition get_notifications :: "response \<Rightarrow> notification list" where
  "get_notifications r = (case r of None \<Rightarrow> [] | Some ns \<Rightarrow> ns)"

text \<open>
  One call of the remote API either raises or returns a response. The calls a run
  makes are answered, in order, by a list of such outcomes.
\<close>

type_synonym api_outcome = "error + response"

subsection \<open>Logging, sleeping and sink calls as recorded effects\<close>

datatype level = DEBUG | INFO | WARNING | ERROR

datatype msg =
    InitializationFailed error
  | LoginFailed error
  | FetchingNotifications
  | LatestNotificationFetched notification
  | NoNotificationsFound
  | FetchFailed error
  | RetryingIn int
  | NoIdField
  | FirstNotificationFetched int
  | NewNotificationFound int
  | NoNewNotifications int int
  | NoNotificationsFetched
  | FetchingUser int
  | UserDataFetched "(string \<times> string) list"
  | NoUserFound int
  | UserFetchFailed int error
  | SendingToPushbullet
  | SendingToDiscord
  | NoServiceSelected
  | FailedToSend

text \<open>
  A call of a channel: Pushbullet gets its key, the subject and the summary; the
  Discord webhook gets subject, text, summary, the sender's full name and picture URL.
\<close>

datatype call =
    PushbulletCall "string option" string string
  | DiscordCall string string string string string

record effects =
  slept :: "int list"
  logged :: "(level \<times> msg) list"
  delivered :: "call list"

definition log :: "level \<Rightarrow> msg \<Rightarrow> effects \<Rightarrow> effects" where
  "log l m eff = eff\<lparr>logged := logged eff @ [(l, m)]\<rparr>"

definition sleep :: "int \<Rightarrow> effects \<Rightarrow> effects" where
  "sleep d eff = eff\<lparr>slept := slept eff @ [d]\<rparr>"

definition deliver_call :: "call \<Rightarrow> effects \<Rightarrow> effects" where
  "deliver_call c eff = eff\<lparr>delivered := delivered eff @ [c]\<rparr>"

definition no_effects :: effects where
  "no_effects = \<lparr>slept = [], logged = [], delivered = []\<rparr>"

section \<open>MoodleNotificationHandler\<close>

record handler =
  last_notification_id :: "int option"
  logged_in :: bool
  url :: string
  username :: string
  password :: string
  moodle_user_id :: int

subsection \<open>fetch\_latest\_notification\<close>

text \<open>
  The loop of \<open>fetch_latest_notification\<close>, entered with the current
  \<open>retry_delay\<close>. Every iteration makes one API call, so it consumes one outcome.
  A raising call is logged, the loop sleeps \<open>retry_delay\<close> and goes on with
  \<open>retry_delay + 2\<close>. A returning call ends the loop: with the first element of a
  non-empty \<open>notifications\<close> list, or with \<open>None\<close>. When the outcomes run out the
  loop has not returned, which is the result \<open>None\<close> of the model.
\<close>

fun fetch_latest_loop ::
  "int \<Rightarrow> api_outcome list \<Rightarrow> effects \<Rightarrow> (notification option \<times> api_outcome list \<times> effects) option"
where
  "fetch_latest_loop retry_delay [] eff = None"
| "fetch_latest_loop retry_delay (Inr response # rest) eff =
     (let eff1 = log INFO FetchingNotifications eff;
          notifications = get_notifications response
      in if notifications \<noteq> []
         then Some (Some (hd notifications), rest,
                    log DEBUG (LatestNotificationFetched (hd notifications)) eff1)
         else Some (None, rest, log INFO NoNotificationsFound eff1))"
| "fetch_latest_loop retry_delay (Inl e # rest) eff =
     fetch_latest_loop (retry_delay + 2) rest
       (sleep retry_delay
         (log INFO (RetryingIn retry_delay)
           (log ERROR (FetchFailed e)
             (log INFO FetchingNotifications eff))))"

definition fetch_latest_notification ::
  "api_outcome list \<Rightarrow> effects \<Rightarrow> (notification option \<times> api_outcome list \<times> effects) option"
where
  "fetch_latest_notification outcomes eff = fetch_latest_loop 60 outcomes eff"

subsection \<open>fetch\_newest\_notification\<close>

text \<open>
  What \<open>fetch_newest_notification\<close> does with the value that
  \<open>fetch_latest_notification\<close> handed back: the branches of lines 95 to 125, in the
  order of the source. The first test is the truth value of the dict, so \<open>None\<close> and
  an empty dict both take the last branch.
\<close>

definition compare_with_last ::
  "handler \<Rightarrow> notification option \<Rightarrow> effects \<Rightarrow> notification option \<times> handler \<times> effects"
where
  "compare_with_last h fetched eff =
     (case fetched of
        None \<Rightarrow> (None, h, log INFO NoNotificationsFetched eff)
      | Some notification \<Rightarrow>
          if truthy notification then
            (case get_id notification of
               None \<Rightarrow> (None, h, log WARNING NoIdField eff)
             | Some notification_id \<Rightarrow>
                 (case last_notification_id h of
                    None \<Rightarrow>
                      (Some notification,
                       h\<lparr>last_notification_id := Some notification_id\<rparr>,
                       log INFO (FirstNotificationFetched notification_id) eff)
                  | Some last_id \<Rightarrow>
                      if notification_id > last_id then
                        (Some notification,
                         h\<lparr>last_notification_id := Some notification_id\<rparr>,
                         log INFO (NewNotificationFound notification_id) eff)
                      else
                        (None, h, log INFO (NoNewNotifications notification_id last_id) eff)))
          else (None, h, log INFO NoNotificationsFetched eff))"

text \<open>
  \<open>fetch_newest_notification\<close> wraps these branches in a \<open>try\<close> inside a second
  retry loop. Nothing in that \<open>try\<close> block raises on the data above:
  \<open>fetch_latest_notification\<close> handles every exception of the API call itself,
  \<open>dict.get\<close> does not raise, and integers compare. So the block is left by one of
  its \<open>return\<close> statements in the first iteration, and the \<open>except\<close> branch of lines
  126 to 132 is never entered. The result is \<open>None\<close> only when
  \<open>fetch_latest_notification\<close> has not returned.
\<close>

definition fetch_newest_notification ::
  "handler \<Rightarrow> api_outcome list \<Rightarrow> effects \<Rightarrow>
     (notification option \<times> handler \<times> api_outcome list \<times> effects) option"
where
  "fetch_newest_notification h outcomes eff =
     (case fetch_latest_notification outcomes eff of
        None \<Rightarrow> None
      | Some (fetched, rest, eff1) \<Rightarrow>
          (case compare_with_last h fetched eff1 of
             (result, h1, eff2) \<Rightarrow> Some (result, h1, rest, eff2)))"

text \<open>
  A driver that polls calls \<open>fetch_newest_notification\<close> again and again on the one
  handler object; \<open>k\<close> such calls in a row, with the values they returned.
\<close>

fun fetch_newest_repeatedly ::
  "nat \<Rightarrow> handler \<Rightarrow> api_outcome list \<Rightarrow> effects \<Rightarrow>
     (notification option list \<times> handler \<times> api_outcome list \<times> effects) option"
where
  "fetch_newest_repeatedly 0 h outcomes eff = Some ([], h, outcomes, eff)"
| "fetch_newest_repeatedly (Suc k) h outcomes eff =
     (case fetch_newest_notification h outcomes eff of
        None \<Rightarrow> None
      | Some (result, h1, rest, eff1) \<Rightarrow>
          (case fetch_newest_repeatedly k h1 rest eff1 of
             None \<Rightarrow> None
           | Some (results, h2, rest2, eff2) \<Rightarrow> Some (result # results, h2, rest2, eff2)))"

subsection \<open>The classifier in the words of the specification\<close>

text \<open>
  The specification describes the cursor as a function \<open>classify\<close> with four verdicts.
  This definition follows its five steps, reading the id from the notification's own
  \<open>id\<close> entry, and is what the source is compared with.
\<close>

datatype verdict = Absent | First notification | New notification | Stale notification

definition spec_classify :: "int option \<Rightarrow> notification option \<Rightarrow> verdict \<times> int option" where
  "spec_classify lastSeenId fetched =
     (case fetched of
        None \<Rightarrow> (Absent, lastSeenId)
      | Some n \<Rightarrow>
          (case id_of n of
             NoKey \<Rightarrow> (Absent, lastSeenId)
           | Null \<Rightarrow> (Absent, lastSeenId)
           | IntId i \<Rightarrow>
               (case lastSeenId of
                  None \<Rightarrow> (First n, Some i)
                | Some l \<Rightarrow> if i > l then (New n, Some i) else (Stale n, lastSeenId))))"

text \<open>What the caller of the fetch gets for a verdict: a notification to dispatch, or nothing.\<close>

fun dispatched :: "verdict \<Rightarrow> notification option" where
  "dispatched Absent = None"
| "dispatched (First n) = Some n"
| "dispatched (New n) = Some n"
| "dispatched (Stale n) = None"

text \<open>The order of cursor values: an unset cursor lies below every set one.\<close>

fun cursor_le :: "int option \<Rightarrow> int option \<Rightarrow> bool" where
  "cursor_le None c = True"
| "cursor_le (Some a) None = False"
| "cursor_le (Some a) (Some b) = (a \<le> b)"

fun cursor_less :: "int option \<Rightarrow> int option \<Rightarrow> bool" where
  "cursor_less c None = False"
| "cursor_less None (Some b) = True"
| "cursor_less (Some a) (Some b) = (a < b)"

subsection \<open>user\_id\_from\<close>

text \<open>
  A user record is a dict of strings. The lookup \<open>core_user_get_users_by_field\<close>
  belongs to the API client, which is not part of these files: it is a parameter that
  raises or returns a list of users. \<open>user_id_from\<close> turns both an empty answer and
  an exception into \<open>None\<close>.
\<close>

type_synonym user = "(string \<times> string) list"

definition user_id_from ::
  "(int \<Rightarrow> error + user list) \<Rightarrow> int \<Rightarrow> effects \<Rightarrow> user option \<times> effects"
where
  "user_id_from core_user_get_users_by_field useridfrom eff =
     (let eff1 = log DEBUG (FetchingUser useridfrom) eff
      in case core_user_get_users_by_field useridfrom of
           Inl e \<Rightarrow> (None, log ERROR (UserFetchFailed useridfrom e) eff1)
         | Inr response \<Rightarrow>
             if response \<noteq> []
             then (Some (hd response), log DEBUG (UserDataFetched (hd response)) eff1)
             else (None, log INFO (NoUserFound useridfrom) eff1))"

subsection \<open>Construction of the handler\<close>

text \<open>
  \<open>config.get_config(section, key)\<close> is the configuration: it gives the value of a key,
  or \<open>None\<close> for a key that is absent, which is the case \<open>_get_config_value\<close> tests
  for.
\<close>

type_synonym config = "string \<Rightarrow> string \<Rightarrow> string option"

text \<open>
  The collaborators that are not part of these files, as parameters: the constructor of
  the API client, its login, \<open>get_user_id\<close> and the user lookup; Python's \<open>int\<close> on a
  string; the constructor of the Discord webhook object and its call; and Pushbullet's
  \<open>send_notification\<close> (with the construction of the Pushbullet object in front of it).
  A procedure that returns nothing gives \<open>None\<close>, or \<open>Some e\<close> when it raises \<open>e\<close>.
\<close>

record collaborators =
  moodle_api_new :: "string \<Rightarrow> error option"
  api_login :: "string \<Rightarrow> string \<Rightarrow> error + bool"
  get_user_id :: "error + int"
  core_user_get_users_by_field :: "int \<Rightarrow> error + user list"
  int_of_str :: "string \<Rightarrow> int option"
  discord_new :: "string option \<Rightarrow> string \<Rightarrow> string \<Rightarrow> error option"
  webhook_discord :: "string \<Rightarrow> string \<Rightarrow> string \<Rightarrow> string \<Rightarrow> string \<Rightarrow> error option"
  send_notification :: "string option \<Rightarrow> string \<Rightarrow> string \<Rightarrow> error option"

definition get_config_value :: "config \<Rightarrow> string \<Rightarrow> string \<Rightarrow> error + string" where
  "get_config_value config section key =
     (case config section key of
        None \<Rightarrow> Inl (ConfigValueError key section)
      | Some v \<Rightarrow> if v \<noteq> [] then Inr v else Inl (ConfigValueError key section))"

text \<open>
  \<open>__login\<close>, called once by \<open>__init__\<close> while \<open>logged_in\<close> is still false: it reads
  the user name and the password, calls the API, logs whatever was raised and raises it
  again. It gives the two values and whether the API reported success.
\<close>

definition handler_login ::
  "collaborators \<Rightarrow> config \<Rightarrow> effects \<Rightarrow> (error + string \<times> string \<times> bool) \<times> effects"
where
  "handler_login co config eff =
     (case get_config_value config ''moodle'' ''MOODLE_USERNAME'' of
        Inl e \<Rightarrow> (Inl e, log ERROR (LoginFailed e) eff)
      | Inr user_name \<Rightarrow>
          (case get_config_value config ''moodle'' ''MOODLE_PASSWORD'' of
             Inl e \<Rightarrow> (Inl e, log ERROR (LoginFailed e) eff)
           | Inr pass_word \<Rightarrow>
               (case api_login co user_name pass_word of
                  Inl e \<Rightarrow> (Inl e, log ERROR (LoginFailed e) eff)
                | Inr ok \<Rightarrow> (Inr (user_name, pass_word, ok), eff))))"

text \<open>\<open>MoodleNotificationHandler.__init__\<close>: every exception is logged and raised again.\<close>

definition handler_init ::
  "collaborators \<Rightarrow> config \<Rightarrow> effects \<Rightarrow> (error + handler) \<times> effects"
where
  "handler_init co config eff =
     (case get_config_value config ''moodle'' ''MOODLE_URL'' of
        Inl e \<Rightarrow> (Inl e, log ERROR (InitializationFailed e) eff)
      | Inr moodle_url \<Rightarrow>
          (case moodle_api_new co moodle_url of
             Some e \<Rightarrow> (Inl e, log ERROR (InitializationFailed e) eff)
           | None \<Rightarrow>
               (case handler_login co config eff of
                  (Inl e, eff1) \<Rightarrow> (Inl e, log ERROR (InitializationFailed e) eff1)
                | (Inr (user_name, pass_word, ok), eff1) \<Rightarrow>
                    (case get_user_id co of
                       Inl e \<Rightarrow> (Inl e, log ERROR (InitializationFailed e) eff1)
                     | Inr uid \<Rightarrow>
                         (Inr \<lparr>last_notification_id = None, logged_in = ok,
                               url = moodle_url, username = user_name,
                               password = pass_word, moodle_user_id = uid\<rparr>,
                          eff1)))))"

section \<open>NotificationSender\<close>

record sender =
  pushbullet_key :: "string option"
  pushbullet_state :: int
  webhook_url :: "string option"
  webhook_state :: int
  model :: "string option"
  bot_name :: string
  thumbnail :: string
  moodle_handler :: handler

text \<open>\<open>int(x)\<close> for a configuration value: \<open>None\<close> is a TypeError, a bad string a ValueError.\<close>

definition py_int :: "(string \<Rightarrow> int option) \<Rightarrow> string option \<Rightarrow> error + int" where
  "py_int parse v =
     (case v of
        None \<Rightarrow> Inl IntTypeError
      | Some s \<Rightarrow> (case parse s of None \<Rightarrow> Inl (IntValueError s) | Some i \<Rightarrow> Inr i))"

text \<open>
  The body of \<open>NotificationSender.__init__\<close>, without its decorator. The key and the
  URL are stored as \<open>get_config\<close> gives them; only the two \<open>ENABLED\<close> values go through
  \<open>int\<close>.
\<close>

definition sender_init_body ::
  "collaborators \<Rightarrow> config \<Rightarrow> string \<Rightarrow> string \<Rightarrow> effects \<Rightarrow> (error + sender) \<times> effects"
where
  "sender_init_body co config bname thumb eff =
     (case py_int (int_of_str co) (config ''pushbullet'' ''ENABLED'') of
        Inl e \<Rightarrow> (Inl e, eff)
      | Inr pb_state \<Rightarrow>
          (case py_int (int_of_str co) (config ''discord'' ''ENABLED'') of
             Inl e \<Rightarrow> (Inl e, eff)
           | Inr wh_state \<Rightarrow>
               (case discord_new co (config ''discord'' ''WEBHOOK_URL'') bname thumb of
                  Some e \<Rightarrow> (Inl e, eff)
                | None \<Rightarrow>
                    (case handler_init co config eff of
                       (Inl e, eff1) \<Rightarrow> (Inl e, eff1)
                     | (Inr h, eff1) \<Rightarrow>
                         (Inr \<lparr>pushbullet_key = config ''pushbullet'' ''PUSHBULLET_API_KEY'',
                               pushbullet_state = pb_state,
                               webhook_url = config ''discord'' ''WEBHOOK_URL'',
                               webhook_state = wh_state,
                               model = config ''summary'' ''MODEL'',
                               bot_name = bname, thumbnail = thumb,
                               moodle_handler = h\<rparr>,
                          eff1)))))"

subsection \<open>send\<close>

text \<open>Lines 62 to 65: the Pushbullet part of the \<open>try\<close> block.\<close>

definition send_pushbullet ::
  "collaborators \<Rightarrow> sender \<Rightarrow> string \<Rightarrow> string \<Rightarrow> effects \<Rightarrow> (error + unit) \<times> effects"
where
  "send_pushbullet co s subject summary eff =
     (if pushbullet_state s = 1 then
        let eff1 = deliver_call (PushbulletCall (pushbullet_key s) subject summary)
                     (log INFO SendingToPushbullet eff)
        in (case send_notification co (pushbullet_key s) subject summary of
              Some e \<Rightarrow> (Inl e, eff1)
            | None \<Rightarrow> (Inr (), eff1))
      else (Inr (), eff))"

text \<open>
  Lines 69 to 80: the name and the picture of the sender. With a user id the handler's
  \<open>user_id_from\<close> is asked and its answer is subscripted twice, which raises when the
  answer is \<open>None\<close> or lacks the key; without a user id the fixed identity is taken.
\<close>

definition sender_identity ::
  "collaborators \<Rightarrow> int option \<Rightarrow> effects \<Rightarrow> (error + string \<times> string) \<times> effects"
where
  "sender_identity co useridfrom eff =
     (case useridfrom of
        Some uid \<Rightarrow>
          (case user_id_from (core_user_get_users_by_field co) uid eff of
             (None, eff1) \<Rightarrow> (Inl NoneSubscript, eff1)
           | (Some useridfrom_info, eff1) \<Rightarrow>
               (case map_of useridfrom_info ''fullname'' of
                  None \<Rightarrow> (Inl (KeyError ''fullname''), eff1)
                | Some fullname \<Rightarrow>
                    (case map_of useridfrom_info ''profileimageurl'' of
                       None \<Rightarrow> (Inl (KeyError ''profileimageurl''), eff1)
                     | Some profile_url \<Rightarrow> (Inr (fullname, profile_url), eff1))))
      | None \<Rightarrow>
          (Inr (''EvickaStudio'', ''https://avatars.githubusercontent.com/u/68477970''), eff))"

text \<open>Lines 67 to 92: the Discord part, and the \<open>else\<close> of its \<open>if\<close>.\<close>

definition send_discord ::
  "collaborators \<Rightarrow> sender \<Rightarrow> string \<Rightarrow> string \<Rightarrow> string \<Rightarrow> int option \<Rightarrow> effects \<Rightarrow>
     (error + unit) \<times> effects"
where
  "send_discord co s subject text summary useridfrom eff =
     (if webhook_state s = 1 then
        (case sender_identity co useridfrom (log INFO SendingToDiscord eff) of
           (Inl e, eff1) \<Rightarrow> (Inl e, eff1)
         | (Inr (fullname, profile_url), eff1) \<Rightarrow>
             let eff2 = deliver_call (DiscordCall subject text summary fullname profile_url) eff1
             in (case webhook_discord co subject text summary fullname profile_url of
                   Some e \<Rightarrow> (Inl e, eff2)
                 | None \<Rightarrow> (Inr (), eff2)))
      else (Inr (), log INFO NoServiceSelected eff))"

text \<open>
  The body of \<open>send\<close>: one \<open>try\<close> block around both parts, and one handler that logs
  and raises the exception again.
\<close>

definition send_body ::
  "collaborators \<Rightarrow> sender \<Rightarrow> string \<Rightarrow> string \<Rightarrow> string \<Rightarrow> int option \<Rightarrow> effects \<Rightarrow>
     (error + unit) \<times> effects"
where
  "send_body co s subject text summary useridfrom eff =
     (case send_pushbullet co s subject summary eff of
        (Inl e, eff1) \<Rightarrow> (Inl e, log ERROR FailedToSend eff1)
      | (Inr u, eff1) \<Rightarrow>
          (case send_discord co s subject text summary useridfrom eff1 of
             (Inl e, eff2) \<Rightarrow> (Inl e, log ERROR FailedToSend eff2)
           | (Inr v, eff2) \<Rightarrow> (Inr v, eff2)))"



section \<open>Auxiliary notions for the statements\<close>

text \<open>
  What \<open>fetch_latest_notification\<close> returns for a response: the first entry of its
  \<open>notifications\<close> list, or \<open>None\<close> when there is none.
\<close>

definition latest_of :: "response \<Rightarrow> notification option" where
  "latest_of r = (case get_notifications r of [] \<Rightarrow> None | n # ns \<Rightarrow> Some n)"

text \<open>
  The effects of a run of failed attempts of the fetch loop that starts with delay
  \<open>d\<close>: per attempt three log lines and one sleep.
\<close>

fun failed_attempts :: "int \<Rightarrow> error list \<Rightarrow> effects \<Rightarrow> effects" where
  "failed_attempts d [] eff = eff"
| "failed_attempts d (e # es) eff =
     failed_attempts (d + 2) es
       (sleep d (log INFO (RetryingIn d) (log ERROR (FetchFailed e)
         (log INFO FetchingNotifications eff))))"

text \<open>The log lines of a fetch that returned the notification \<open>n\<close>.\<close>

definition fetched_log :: "notification \<Rightarrow> effects \<Rightarrow> effects" where
  "fetched_log n eff = log DEBUG (LatestNotificationFetched n) (log INFO FetchingNotifications eff)"

subsection \<open>Concrete inputs\<close>

definition example_handler :: handler where
  "example_handler =
     \<lparr>last_notification_id = None, logged_in = True, url = ''https://moodle.example'',
      username = ''student'', password = ''secret'', moodle_user_id = 2\<rparr>"

definition example_note :: "int \<Rightarrow> notification" where
  "example_note i = \<lparr>id_of = IntId i, others = [(''subject'', ''Grades'')]\<rparr>"

definition empty_note :: notification where
  "empty_note = \<lparr>id_of = NoKey, others = []\<rparr>"

definition unnumbered_note :: notification where
  "unnumbered_note = \<lparr>id_of = NoKey, others = [(''subject'', ''Grades'')]\<rparr>"

text \<open>A configuration with every key, and the same without the Pushbullet key.\<close>

definition example_config :: config where
  "example_config section key =
     map_of
       [((''moodle'', ''MOODLE_URL''), ''https://moodle.example''),
        ((''moodle'', ''MOODLE_USERNAME''), ''student''),
        ((''moodle'', ''MOODLE_PASSWORD''), ''secret''),
        ((''pushbullet'', ''PUSHBULLET_API_KEY''), ''o.key''),
        ((''pushbullet'', ''ENABLED''), ''1''),
        ((''discord'', ''WEBHOOK_URL''), ''https://discord.example/hook''),
        ((''discord'', ''ENABLED''), ''1''),
        ((''summary'', ''MODEL''), ''gpt'')]
       (section, key)"

definition without_key :: "string \<Rightarrow> string \<Rightarrow> config \<Rightarrow> config" where
  "without_key section key config =
     (\<lambda>s k. if s = section \<and> k = key then None else config s k)"

text \<open>
  Collaborators that all work: the API accepts the login and knows one user, \<open>int\<close>
  reads the two flag values, both channels accept what they are sent.
\<close>

definition working_collaborators :: collaborators where
  "working_collaborators =
     \<lparr>moodle_api_new = (\<lambda>u. None),
      api_login = (\<lambda>u p. Inr True),
      get_user_id = Inr 2,
      core_user_get_users_by_field =
        (\<lambda>uid. Inr [[(''fullname'', ''Ada Lovelace''),
                       (''profileimageurl'', ''https://moodle.example/ada.png'')]]),
      int_of_str = (\<lambda>s. if s = ''1'' then Some 1 else if s = ''0'' then Some 0 else None),
      discord_new = (\<lambda>u b t. None),
      webhook_discord = (\<lambda>subject text summary fullname picture_url. None),
      send_notification = (\<lambda>k subject summary. None)\<rparr>"

definition example_sender :: sender where
  "example_sender =
     \<lparr>pushbullet_key = Some ''o.key'', pushbullet_state = 1,
      webhook_url = Some ''https://discord.example/hook'', webhook_state = 1,
      model = Some ''gpt'', bot_name = ''MoodleMate'', thumbnail = ''thumb.png'',
      moodle_handler = example_handler\<rparr>"

text \<open>The same collaborators with one of them failing.\<close>

definition pushbullet_down :: collaborators where
  "pushbullet_down =
     working_collaborators
       \<lparr>send_notification := (\<lambda>k subject summary. Some (External ''pushbullet unreachable''))\<rparr>"


definition unknown_user :: collaborators where
  "unknown_user = working_collaborators\<lparr>core_user_get_users_by_field := (\<lambda>uid. Inr [])\<rparr>"

definition lookup_down :: collaborators where
  "lookup_down =
     working_collaborators
       \<lparr>core_user_get_users_by_field := (\<lambda>uid. Inl (External ''moodle unreachable''))\<rparr>"

section \<open>The retrying fetch\<close>

lemma fetch_latest_loop_failures:
  "fetch_latest_loop d (map Inl es @ outcomes) eff =
     fetch_latest_loop (d + 2 * int (length es)) outcomes (failed_attempts d es eff)"
  by (induction es arbitrary: d eff) (simp_all add: algebra_simps)

lemma slept_failed_attempts:
  "slept (failed_attempts d es eff) = slept eff @ map (\<lambda>k. d + 2 * int k) [0..<length es]"
proof (induction es arbitrary: d eff)
  case Nil
  show ?case by simp
next
  case (Cons e es)
  have "map (\<lambda>k. d + 2 * int k) [0..<Suc (length es)] =
        d # map (\<lambda>k. d + 2 + 2 * int k) [0..<length es]"
    by (simp add: upt_rec [of 0] map_Suc_upt [symmetric] del: upt_Suc)
  then show ?case
    by (simp add: Cons.IH sleep_def log_def)
qed

lemma delivered_failed_attempts: "delivered (failed_attempts d es eff) = delivered eff"
  by (induction es arbitrary: d eff) (simp_all add: sleep_def log_def)

lemma fetch_latest_loop_success:
  "fetch_latest_loop d (Inr r # rest) eff =
     Some (latest_of r, rest,
           (case latest_of r of
              Some n \<Rightarrow> fetched_log n eff
            | None \<Rightarrow> log INFO NoNotificationsFound (log INFO FetchingNotifications eff)))"
  by (cases "get_notifications r") (simp_all add: latest_of_def fetched_log_def Let_def)

text \<open>
  C5. An API call that raises twice and then returns makes \<open>fetch_latest_notification\<close>
  sleep exactly twice, 60 and then 62 seconds, and return what the third call gives: the
  first notification \<open>n\<close> of a response that holds the notifications \<open>n # ns\<close>, and
  \<open>None\<close> for a response whose list is empty or missing. The result is a returned
  value, not an exception, and the three outcomes are used up. More generally, after any
  number of failures the sleeps are 60, 62, 64, ... with no bound on their number or
  length.
\<close>

theorem fetch_latest_two_failures:
  "map_option (\<lambda>(v, rest', eff'). (v, rest', slept eff'))
       (fetch_latest_notification (Inl e1 # Inl e2 # Inr (Some (n # ns)) # rest) eff)
     = Some (Some n, rest, slept eff @ [60, 62])
   \<and> map_option (\<lambda>(v, rest', eff'). (v, rest', slept eff'))
       (fetch_latest_notification (Inl e1 # Inl e2 # Inr (Some []) # rest) eff)
     = Some (None, rest, slept eff @ [60, 62])
   \<and> map_option (\<lambda>(v, rest', eff'). (v, rest', slept eff'))
       (fetch_latest_notification (Inl e1 # Inl e2 # Inr None # rest) eff)
     = Some (None, rest, slept eff @ [60, 62])
   \<and> map_option (\<lambda>(v, rest', eff'). (v, rest', slept eff'))
       (fetch_latest_notification (map Inl es @ Inr (Some (n # ns)) # rest) eff)
     = Some (Some n, rest, slept eff @ map (\<lambda>k. 60 + 2 * int k) [0..<length es])
   \<and> map_option (\<lambda>(v, rest', eff'). (v, rest', slept eff'))
       (fetch_latest_notification (map Inl es @ Inr (Some []) # rest) eff)
     = Some (None, rest, slept eff @ map (\<lambda>k. 60 + 2 * int k) [0..<length es])
   \<and> map_option (\<lambda>(v, rest', eff'). (v, rest', slept eff'))
       (fetch_latest_notification (map Inl es @ Inr None # rest) eff)
     = Some (None, rest, slept eff @ map (\<lambda>k. 60 + 2 * int k) [0..<length es])"
proof -
  have two: "map_option (\<lambda>(v, rest', eff'). (v, rest', slept eff'))
       (fetch_latest_notification (Inl e1 # Inl e2 # Inr r # rest) eff)
     = Some (latest_of r, rest, slept eff @ [60, 62])" for r
    by (cases "latest_of r")
       (simp_all add: fetch_latest_notification_def fetch_latest_loop_success log_def
          sleep_def fetched_log_def del: fetch_latest_loop.simps(2))
  have many: "map_option (\<lambda>(v, rest', eff'). (v, rest', slept eff'))
       (fetch_latest_notification (map Inl es @ Inr r # rest) eff)
     = Some (latest_of r, rest, slept eff @ map (\<lambda>k. 60 + 2 * int k) [0..<length es])" for r
    by (cases "latest_of r")
       (simp_all add: fetch_latest_notification_def fetch_latest_loop_failures
          fetch_latest_loop_success log_def slept_failed_attempts fetched_log_def
          del: fetch_latest_loop.simps(2))
  have v: "latest_of (Some (n # ns)) = Some n" "latest_of (Some []) = None"
    "latest_of None = None"
    by (simp_all add: latest_of_def get_notifications_def)
  from two [of "Some (n # ns)"] two [of "Some []"] two [of None]
    many [of "Some (n # ns)"] many [of "Some []"] many [of None] v
  show ?thesis by simp
qed

section \<open>The cursor\<close>

lemma fetch_newest_notification_success:
  "fetch_newest_notification h (Inr r # rest) eff =
     (case latest_of r of
        Some n \<Rightarrow>
          (case compare_with_last h (Some n) (fetched_log n eff) of
             (result, h1, eff2) \<Rightarrow> Some (result, h1, rest, eff2))
      | None \<Rightarrow>
          Some (None, h, rest,
                log INFO NoNotificationsFetched
                  (log INFO NoNotificationsFound (log INFO FetchingNotifications eff))))"
  by (cases "latest_of r")
     (simp_all add: fetch_newest_notification_def fetch_latest_notification_def
        fetch_latest_loop_success compare_with_last_def del: fetch_latest_loop.simps(2))

lemma latest_of_Cons [simp]: "latest_of (Some (n # ns)) = Some n"
  by (simp add: latest_of_def get_notifications_def)

lemma get_id_truthy: "get_id n = Some i \<Longrightarrow> truthy n"
  by (auto simp: get_id_def truthy_def split: id_entry.splits)

text \<open>
  C3. The classifier as a function of the cursor and the id of the fetched notification.
  For a notification with an integer id \<open>i\<close>: with the cursor unset the call takes the
  first-run branch (it logs the first notification, returns it, and sets the cursor to
  \<open>i\<close>); with the cursor at \<open>l\<close> and \<open>i > l\<close> it takes the new-notification branch
  (returns it, cursor becomes \<open>i\<close>); with \<open>i \<le> l\<close> it takes the no-new-notification
  branch (returns \<open>None\<close>, cursor unchanged). The witness runs it at cursor 5 with the
  ids 5, 3 and 7, and at an unset cursor.
\<close>

theorem classifier_first_new_stale:
  assumes "get_id n = Some i"
  shows "fetch_newest_notification h (Inr (Some (n # ns)) # rest) eff =
     Some (case last_notification_id h of
             None \<Rightarrow>
               (Some n, h\<lparr>last_notification_id := Some i\<rparr>, rest,
                log INFO (FirstNotificationFetched i) (fetched_log n eff))
           | Some l \<Rightarrow>
               if i > l
               then (Some n, h\<lparr>last_notification_id := Some i\<rparr>, rest,
                     log INFO (NewNotificationFound i) (fetched_log n eff))
               else (None, h, rest,
                     log INFO (NoNewNotifications i l) (fetched_log n eff)))"
  using assms get_id_truthy [OF assms]
  by (simp add: fetch_newest_notification_success compare_with_last_def split: option.splits)

theorem classifier_first_new_stale_witness:
  "fetch_newest_notification example_handler [Inr (Some [example_note 4])] no_effects =
     Some (Some (example_note 4), example_handler\<lparr>last_notification_id := Some 4\<rparr>, [],
           log INFO (FirstNotificationFetched 4) (fetched_log (example_note 4) no_effects))
   \<and> fetch_newest_notification (example_handler\<lparr>last_notification_id := Some 5\<rparr>)
        [Inr (Some [example_note 5])] no_effects =
     Some (None, example_handler\<lparr>last_notification_id := Some 5\<rparr>, [],
           log INFO (NoNewNotifications 5 5) (fetched_log (example_note 5) no_effects))
   \<and> fetch_newest_notification (example_handler\<lparr>last_notification_id := Some 5\<rparr>)
        [Inr (Some [example_note 3])] no_effects =
     Some (None, example_handler\<lparr>last_notification_id := Some 5\<rparr>, [],
           log INFO (NoNewNotifications 3 5) (fetched_log (example_note 3) no_effects))
   \<and> fetch_newest_notification (example_handler\<lparr>last_notification_id := Some 5\<rparr>)
        [Inr (Some [example_note 7])] no_effects =
     Some (Some (example_note 7), example_handler\<lparr>last_notification_id := Some 7\<rparr>, [],
           log INFO (NewNotificationFound 7) (fetched_log (example_note 7) no_effects))"
proof -
  have g: "\<And>i. get_id (example_note i) = Some i"
    by (simp add: get_id_def example_note_def)
  show ?thesis
    using classifier_first_new_stale [of "example_note 4" 4 example_handler "[]" "[]" no_effects, OF g]
      classifier_first_new_stale [of "example_note 5" 5 "example_handler\<lparr>last_notification_id := Some 5\<rparr>" "[]" "[]" no_effects, OF g]
      classifier_first_new_stale [of "example_note 3" 3 "example_handler\<lparr>last_notification_id := Some 5\<rparr>" "[]" "[]" no_effects, OF g]
      classifier_first_new_stale [of "example_note 7" 7 "example_handler\<lparr>last_notification_id := Some 5\<rparr>" "[]" "[]" no_effects, OF g]
    by (simp add: example_handler_def)
qed

lemma cursor_le_refl [simp]: "cursor_le c c"
  by (cases c) simp_all

lemma cursor_less_irrefl [simp]: "\<not> cursor_less c c"
  by (cases c) simp_all

lemma compare_with_last_cursor:
  "compare_with_last h fetched eff = (r, h1, eff1) \<Longrightarrow>
     cursor_le (last_notification_id h) (last_notification_id h1)
     \<and> cursor_less (last_notification_id h) (last_notification_id h1) = (r \<noteq> None)
     \<and> (r = None \<longrightarrow> h1 = h)"
  by (auto simp: compare_with_last_def split: option.splits if_splits)

lemma compare_with_last_effects:
  "fst (compare_with_last h fetched eff) = fst (compare_with_last h fetched eff')
   \<and> fst (snd (compare_with_last h fetched eff)) = fst (snd (compare_with_last h fetched eff'))"
  by (simp add: compare_with_last_def split: option.splits)

lemma compare_with_last_delivered:
  "delivered (snd (snd (compare_with_last h fetched eff))) = delivered eff"
  by (simp add: compare_with_last_def log_def split: option.splits)

lemma fetch_latest_loop_value:
  "map_option (\<lambda>(v, rest, e). (v, rest)) (fetch_latest_loop d outcomes eff) =
   map_option (\<lambda>(v, rest, e). (v, rest)) (fetch_latest_loop d' outcomes eff')"
proof (induction outcomes arbitrary: d eff d' eff')
  case Nil
  show ?case by simp
next
  case (Cons a outcomes)
  show ?case
  proof (cases a)
    case (Inl e)
    then show ?thesis using Cons.IH by simp
  next
    case (Inr r)
    then show ?thesis by (simp add: Let_def)
  qed
qed

lemma fetch_newest_notification_cursor:
  assumes "fetch_newest_notification h outcomes eff = Some (r, h1, rest, eff1)"
  shows "cursor_le (last_notification_id h) (last_notification_id h1)
     \<and> cursor_less (last_notification_id h) (last_notification_id h1) = (r \<noteq> None)
     \<and> (r = None \<longrightarrow> h1 = h)"
proof -
  from assms obtain fetched eff0 where
    c: "compare_with_last h fetched eff0 = (r, h1, eff1)"
    by (auto simp: fetch_newest_notification_def split: option.splits prod.splits)
  then show ?thesis by (rule compare_with_last_cursor)
qed

lemma cursor_le_trans: "cursor_le a b \<Longrightarrow> cursor_le b c \<Longrightarrow> cursor_le a c"
  by (cases a; cases b; cases c) simp_all

lemma fetch_newest_repeatedly_cursor:
  "fetch_newest_repeatedly k h outcomes eff = Some (rs, hk, restk, effk) \<Longrightarrow>
     cursor_le (last_notification_id h) (last_notification_id hk)"
proof (induction k arbitrary: h outcomes eff rs)
  case 0
  then show ?case by simp
next
  case (Suc k)
  from Suc.prems obtain r h1 rest eff1 rs' where
    one: "fetch_newest_notification h outcomes eff = Some (r, h1, rest, eff1)" and
    more: "fetch_newest_repeatedly k h1 rest eff1 = Some (rs', hk, restk, effk)"
    by (auto split: option.splits prod.splits)
  from fetch_newest_notification_cursor [OF one]
  have "cursor_le (last_notification_id h) (last_notification_id h1)" by simp
  moreover from Suc.IH [OF more]
  have "cursor_le (last_notification_id h1) (last_notification_id hk)" .
  ultimately show ?case by (rule cursor_le_trans)
qed

lemma fetch_newest_notification_failure:
  "map_option (\<lambda>(r, h1, rest, eff1). (r, h1, rest))
       (fetch_newest_notification h (Inl e # outcomes) eff) =
   map_option (\<lambda>(r, h1, rest, eff1). (r, h1, rest))
       (fetch_newest_notification h outcomes eff)"
proof -
  let ?eff = "sleep 60 (log INFO (RetryingIn 60) (log ERROR (FetchFailed e)
                 (log INFO FetchingNotifications eff)))"
  have v: "map_option (\<lambda>(v, rest, e). (v, rest)) (fetch_latest_loop 62 outcomes ?eff) =
           map_option (\<lambda>(v, rest, e). (v, rest)) (fetch_latest_loop 60 outcomes eff)"
    by (rule fetch_latest_loop_value)
  show ?thesis
  proof (cases "fetch_latest_loop 60 outcomes eff")
    case None
    with v have "fetch_latest_loop 62 outcomes ?eff = None" by simp
    with None show ?thesis
      by (simp add: fetch_newest_notification_def fetch_latest_notification_def)
  next
    case (Some a)
    obtain f rest eff0 where a: "a = (f, rest, eff0)" by (cases a) auto
    from v Some a obtain eff0' where
      b: "fetch_latest_loop 62 outcomes ?eff = Some (f, rest, eff0')"
      by (cases "fetch_latest_loop 62 outcomes ?eff") auto
    obtain r1 h1 e1 where c1: "compare_with_last h f eff0 = (r1, h1, e1)"
      by (cases "compare_with_last h f eff0") auto
    obtain r2 h2 e2 where c2: "compare_with_last h f eff0' = (r2, h2, e2)"
      by (cases "compare_with_last h f eff0'") auto
    from compare_with_last_effects [of h f eff0 eff0'] c1 c2
    have "r1 = r2" and "h1 = h2" by simp_all
    with Some a b c1 c2 show ?thesis
      by (simp add: fetch_newest_notification_def fetch_latest_notification_def)
  qed
qed

text \<open>
  C4. The cursor \<open>last_notification_id\<close> along the calls made on one handler. One call
  that returns leaves the cursor at or above its old value; the cursor moves strictly up
  exactly when the call returns a notification (the first-run and the new-notification
  branch), and a call that returns \<open>None\<close> (no new notification, nothing fetched, no
  id) leaves the whole handler as it was. Any number of calls in a row never lowers the
  cursor, so a cursor that is set stays set. A failed attempt of the API call changes
  neither the value returned nor the handler: only the log and the sleeps differ.
\<close>

theorem cursor_never_decreases:
  "(fetch_newest_notification h outcomes eff = Some (r, h1, rest, eff1) \<longrightarrow>
      cursor_le (last_notification_id h) (last_notification_id h1)
      \<and> cursor_less (last_notification_id h) (last_notification_id h1) = (r \<noteq> None)
      \<and> (r = None \<longrightarrow> h1 = h))
   \<and> (fetch_newest_repeatedly k h outcomes eff = Some (rs, hk, restk, effk) \<longrightarrow>
      cursor_le (last_notification_id h) (last_notification_id hk))
   \<and> map_option (\<lambda>(r, h1, rest, eff1). (r, h1, rest))
        (fetch_newest_notification h (Inl e # outcomes) eff) =
      map_option (\<lambda>(r, h1, rest, eff1). (r, h1, rest))
        (fetch_newest_notification h outcomes eff)"
  using fetch_newest_notification_cursor [of h outcomes eff r h1 rest eff1]
    fetch_newest_repeatedly_cursor [of k h outcomes eff rs hk restk effk]
    fetch_newest_notification_failure [of h e outcomes eff]
  by blast

theorem cursor_never_decreases_witness:
  "map_option (\<lambda>(r, h1, rest, eff1). (r, h1, rest))
     (fetch_newest_notification (example_handler\<lparr>last_notification_id := Some 5\<rparr>)
        [Inl (External ''timeout''), Inr (Some [example_note 3])] no_effects)
     = Some (None, example_handler\<lparr>last_notification_id := Some 5\<rparr>, [])
   \<and> map_option (\<lambda>(rs, hk, restk, effk). (rs, last_notification_id hk, restk))
     (fetch_newest_repeatedly (Suc (Suc (Suc 0))) example_handler
        [Inr (Some [example_note 5]), Inr (Some [example_note 3]),
         Inl (External ''timeout''), Inr (Some [example_note 7])] no_effects)
     = Some ([Some (example_note 5), None, Some (example_note 7)], Some 7, [])
   \<and> cursor_le (last_notification_id example_handler) (Some 7)
   \<and> cursor_le (Some 5) (Some 5) \<and> \<not> cursor_less (Some 5) (Some 5)"
proof -
  let ?h5 = "example_handler\<lparr>last_notification_id := Some 5\<rparr>"
  let ?one = "fetch_newest_notification ?h5
        [Inl (External ''timeout''), Inr (Some [example_note 3])] no_effects"
  let ?many = "fetch_newest_repeatedly (Suc (Suc (Suc 0))) example_handler
        [Inr (Some [example_note 5]), Inr (Some [example_note 3]),
         Inl (External ''timeout''), Inr (Some [example_note 7])] no_effects"
  note defs = fetch_newest_notification_def fetch_latest_notification_def
    compare_with_last_def get_notifications_def truthy_def get_id_def
    example_note_def example_handler_def Let_def
  obtain e1 where one: "?one = Some (None, ?h5, [], e1)"
    by (simp add: defs)
  obtain ek where many: "?many = Some ([Some (example_note 5), None, Some (example_note 7)],
        example_handler\<lparr>last_notification_id := Some 7\<rparr>, [], ek)"
    by (simp add: defs)
  from one cursor_never_decreases [where h = ?h5
      and outcomes = "[Inl (External ''timeout''), Inr (Some [example_note 3])]"
      and eff = no_effects and r = None and ?h1.0 = ?h5 and rest = "[]" and ?eff1.0 = e1]
  have a: "cursor_le (Some 5) (Some 5) \<and> \<not> cursor_less (Some 5) (Some 5)"
    by simp
  from many cursor_never_decreases [where h = example_handler
      and outcomes = "[Inr (Some [example_note 5]), Inr (Some [example_note 3]),
        Inl (External ''timeout''), Inr (Some [example_note 7])]"
      and eff = no_effects and k = "Suc (Suc (Suc 0))"
      and rs = "[Some (example_note 5), None, Some (example_note 7)]"
      and hk = "example_handler\<lparr>last_notification_id := Some 7\<rparr>" and restk = "[]"
      and effk = ek]
  have b: "cursor_le (last_notification_id example_handler) (Some 7)"
    by simp
  from a b one many show ?thesis
    by simp
qed

section \<open>Nothing to hand on\<close>

lemma fetch_newest_notification_failures:
  "fetch_newest_notification h (map Inl es @ Inr r # rest) eff =
     (case latest_of r of
        Some n \<Rightarrow>
          (case compare_with_last h (Some n) (fetched_log n (failed_attempts 60 es eff)) of
             (result, h1, eff2) \<Rightarrow> Some (result, h1, rest, eff2))
      | None \<Rightarrow>
          Some (None, h, rest,
                log INFO NoNotificationsFetched
                  (log INFO NoNotificationsFound
                    (log INFO FetchingNotifications (failed_attempts 60 es eff)))))"
  by (cases "latest_of r")
     (simp_all add: fetch_newest_notification_def fetch_latest_notification_def
        fetch_latest_loop_failures fetch_latest_loop_success compare_with_last_def
        del: fetch_latest_loop.simps(2))

lemma latest_of_empty: "get_notifications r = [] \<Longrightarrow> latest_of r = None"
  by (simp add: latest_of_def)

text \<open>
  C8. A fetch whose response holds no notifications (the list is empty, or the key is
  missing), after any number of failed attempts and for every handler state: the call
  returns \<open>None\<close>, the handler and so the cursor are unchanged, the last log line is the
  one of the nothing-fetched branch, and no sink has been called. The value \<open>None\<close> is
  all the caller gets, so it has nothing to dispatch.
\<close>

theorem no_notifications_is_absent:
  assumes "get_notifications r = []"
  shows "map_option (\<lambda>(result, h1, rest1, eff1).
             (result, h1, rest1, delivered eff1, last (logged eff1)))
           (fetch_newest_notification h (map Inl es @ Inr r # rest) eff)
         = Some (None, h, rest, delivered eff, (INFO, NoNotificationsFetched))"
  using latest_of_empty [OF assms]
  by (simp add: fetch_newest_notification_failures log_def delivered_failed_attempts)

theorem no_notifications_is_absent_witness:
  "get_notifications (Some []) = []
   \<and> map_option (\<lambda>(result, h1, rest1, eff1).
             (result, h1, rest1, delivered eff1, last (logged eff1)))
        (fetch_newest_notification (example_handler\<lparr>last_notification_id := Some 5\<rparr>)
           [Inl (External ''timeout''), Inr (Some [])] no_effects)
      = Some (None, example_handler\<lparr>last_notification_id := Some 5\<rparr>, [], [],
              (INFO, NoNotificationsFetched))
   \<and> map_option (\<lambda>(result, h1, rest1, eff1).
             (result, h1, rest1, delivered eff1, last (logged eff1)))
        (fetch_newest_notification example_handler [Inr None] no_effects)
      = Some (None, example_handler, [], [], (INFO, NoNotificationsFetched))"
proof -
  have a: "get_notifications (Some []) = []" and b: "get_notifications None = []"
    by (simp_all add: get_notifications_def)
  from no_notifications_is_absent [OF a, of "example_handler\<lparr>last_notification_id := Some 5\<rparr>"
      "[External ''timeout'']" "[]" no_effects]
    no_notifications_is_absent [OF b, of example_handler "[]" "[]" no_effects] a
  show ?thesis by (simp add: no_effects_def)
qed

text \<open>
  C7, as the code has it. A fetched notification whose id is missing (no such key, or
  \<open>None\<close>) makes the call return \<open>None\<close> with the handler, and so the cursor, unchanged
  and no sink called, for every handler state; the call returns, it does not raise. The
  warning is logged when the notification has at least one entry. An empty notification
  object is falsy, takes the nothing-fetched branch and logs that line at level INFO
  instead.
\<close>

theorem missing_id_is_absent:
  assumes "get_id n = None"
  shows "fetch_newest_notification h (map Inl es @ Inr (Some (n # ns)) # rest) eff =
           Some (None, h, rest,
                 (if truthy n then log WARNING NoIdField else log INFO NoNotificationsFetched)
                   (fetched_log n (failed_attempts 60 es eff)))
         \<and> delivered ((if truthy n then log WARNING NoIdField else log INFO NoNotificationsFetched)
                   (fetched_log n (failed_attempts 60 es eff))) = delivered eff"
  using assms
  by (simp add: fetch_newest_notification_failures compare_with_last_def log_def
      fetched_log_def delivered_failed_attempts)

theorem missing_id_is_absent_witness:
  "get_id unnumbered_note = None \<and> truthy unnumbered_note
   \<and> fetch_newest_notification (example_handler\<lparr>last_notification_id := Some 5\<rparr>)
        [Inr (Some [unnumbered_note])] no_effects =
      Some (None, example_handler\<lparr>last_notification_id := Some 5\<rparr>, [],
            log WARNING NoIdField (fetched_log unnumbered_note no_effects))"
proof -
  have a: "get_id unnumbered_note = None" and b: "truthy unnumbered_note"
    by (simp_all add: get_id_def truthy_def unnumbered_note_def)
  from missing_id_is_absent [OF a, of "example_handler\<lparr>last_notification_id := Some 5\<rparr>"
      "[]" "[]" "[]" no_effects] a b
  show ?thesis by simp
qed

theorem empty_notification_logs_no_warning:
  "get_id empty_note = None
   \<and> map_option (\<lambda>(result, h1, rest1, eff1). logged eff1)
        (fetch_newest_notification example_handler [Inr (Some [empty_note])] no_effects)
      = Some [(INFO, FetchingNotifications),
              (DEBUG, LatestNotificationFetched empty_note),
              (INFO, NoNotificationsFetched)]"
  by (simp add: fetch_newest_notification_def fetch_latest_notification_def
      compare_with_last_def get_notifications_def truthy_def get_id_def
      empty_note_def no_effects_def log_def Let_def)

section \<open>The returned value and the verdict\<close>

lemma compare_with_last_dispatched:
  "fst (compare_with_last h fetched eff) =
     dispatched (fst (spec_classify (last_notification_id h) fetched))"
  by (auto simp: compare_with_last_def spec_classify_def truthy_def get_id_def
      split: option.splits id_entry.splits)

lemma fetch_newest_notification_dispatched:
  "map_option fst (fetch_newest_notification h (map Inl es @ Inr r # rest) eff) =
     Some (dispatched (fst (spec_classify (last_notification_id h) (latest_of r))))"
proof (cases "latest_of r")
  case None
  then show ?thesis
    by (simp add: fetch_newest_notification_failures spec_classify_def)
next
  case (Some n)
  obtain res h1 eff2 where
    c: "compare_with_last h (Some n) (fetched_log n (failed_attempts 60 es eff)) = (res, h1, eff2)"
    by (cases "compare_with_last h (Some n) (fetched_log n (failed_attempts 60 es eff))") auto
  from compare_with_last_dispatched [of h "Some n" "fetched_log n (failed_attempts 60 es eff)"] c
  have "res = dispatched (fst (spec_classify (last_notification_id h) (Some n)))" by simp
  with Some c show ?thesis
    by (simp add: fetch_newest_notification_failures)
qed

text \<open>
  C10. What \<open>fetch_newest_notification\<close> returns, against the verdict that the
  specification's classifier gives for the same cursor and the same fetched value. The
  classifier is pinned on the data first: a notification with id \<open>i\<close> is First at an
  unset cursor, New at a cursor below \<open>i\<close> and Stale otherwise; no notification, or one
  whose id is missing or \<open>None\<close>, is Absent. The call, after any number of failed
  attempts, returns, and its value is the notification for the verdicts First and New
  and \<open>None\<close> for both Absent and Stale. So the returned value alone does not tell a
  stale notification from nothing fetched.
\<close>

theorem returned_value_follows_verdict:
  "fst (spec_classify None (Some (n\<lparr>id_of := IntId i\<rparr>))) = First (n\<lparr>id_of := IntId i\<rparr>)
   \<and> fst (spec_classify (Some l) (Some (n\<lparr>id_of := IntId i\<rparr>))) =
       (if i > l then New (n\<lparr>id_of := IntId i\<rparr>) else Stale (n\<lparr>id_of := IntId i\<rparr>))
   \<and> fst (spec_classify c (Some (n\<lparr>id_of := NoKey\<rparr>))) = Absent
   \<and> fst (spec_classify c (Some (n\<lparr>id_of := Null\<rparr>))) = Absent
   \<and> fst (spec_classify c None) = Absent
   \<and> dispatched Absent = None \<and> dispatched (Stale n) = None
   \<and> dispatched (First n) = Some n \<and> dispatched (New n) = Some n
   \<and> fst (compare_with_last h fetched eff) =
       dispatched (fst (spec_classify (last_notification_id h) fetched))
   \<and> map_option fst
        (fetch_newest_notification h (map Inl es @ Inr (Some (m # ms)) # rest) eff) =
       Some (dispatched (fst (spec_classify (last_notification_id h) (Some m))))
   \<and> map_option fst (fetch_newest_notification h (map Inl es @ Inr (Some []) # rest) eff) =
       Some None
   \<and> map_option fst (fetch_newest_notification h (map Inl es @ Inr None # rest) eff) =
       Some None
   \<and> map_option fst (fetch_newest_notification h outcomes eff) =
       map_option (\<lambda>(fetched, rest, eff1).
           dispatched (fst (spec_classify (last_notification_id h) fetched)))
         (fetch_latest_notification outcomes eff)"
proof -
  have general: "map_option fst (fetch_newest_notification h outcomes eff) =
     map_option (\<lambda>(fetched, rest, eff1).
         dispatched (fst (spec_classify (last_notification_id h) fetched)))
       (fetch_latest_notification outcomes eff)"
  proof (cases "fetch_latest_notification outcomes eff")
    case None
    then show ?thesis by (simp add: fetch_newest_notification_def)
  next
    case (Some a)
    obtain fetched rest eff1 where a: "a = (fetched, rest, eff1)" by (cases a) auto
    obtain r h1 eff2 where c: "compare_with_last h fetched eff1 = (r, h1, eff2)"
      by (cases "compare_with_last h fetched eff1") auto
    from compare_with_last_dispatched [of h fetched eff1] c
    have "r = dispatched (fst (spec_classify (last_notification_id h) fetched))" by simp
    with Some a c show ?thesis by (simp add: fetch_newest_notification_def)
  qed
  have pinned:
    "fst (spec_classify None (Some (n\<lparr>id_of := IntId i\<rparr>))) = First (n\<lparr>id_of := IntId i\<rparr>)"
    "fst (spec_classify (Some l) (Some (n\<lparr>id_of := IntId i\<rparr>))) =
       (if i > l then New (n\<lparr>id_of := IntId i\<rparr>) else Stale (n\<lparr>id_of := IntId i\<rparr>))"
    "fst (spec_classify c (Some (n\<lparr>id_of := NoKey\<rparr>))) = Absent"
    "fst (spec_classify c (Some (n\<lparr>id_of := Null\<rparr>))) = Absent"
    "fst (spec_classify c None) = Absent"
    by (simp_all add: spec_classify_def)
  have v: "latest_of (Some (m # ms)) = Some m" "latest_of (Some []) = None"
    "latest_of None = None"
    by (simp_all add: latest_of_def get_notifications_def)
  from fetch_newest_notification_dispatched [of h es "Some (m # ms)" rest eff]
    fetch_newest_notification_dispatched [of h es "Some []" rest eff]
    fetch_newest_notification_dispatched [of h es None rest eff] v pinned(5)
  have returned:
    "map_option fst
        (fetch_newest_notification h (map Inl es @ Inr (Some (m # ms)) # rest) eff) =
       Some (dispatched (fst (spec_classify (last_notification_id h) (Some m))))"
    "map_option fst (fetch_newest_notification h (map Inl es @ Inr (Some []) # rest) eff) =
       Some None"
    "map_option fst (fetch_newest_notification h (map Inl es @ Inr None # rest) eff) =
       Some None"
    by (simp_all add: spec_classify_def)
  from general pinned returned show ?thesis
    by (simp add: compare_with_last_dispatched)
qed

section \<open>Sending\<close>

lemma send_pushbullet_raises:
  "pushbullet_state s = 1 \<Longrightarrow> send_notification co (pushbullet_key s) subject summary = Some e \<Longrightarrow>
     send_pushbullet co s subject summary eff =
       (Inl e, deliver_call (PushbulletCall (pushbullet_key s) subject summary)
                 (log INFO SendingToPushbullet eff))"
  by (simp add: send_pushbullet_def)

lemma send_pushbullet_returns:
  "pushbullet_state s = 1 \<Longrightarrow> send_notification co (pushbullet_key s) subject summary = None \<Longrightarrow>
     send_pushbullet co s subject summary eff =
       (Inr (), deliver_call (PushbulletCall (pushbullet_key s) subject summary)
                  (log INFO SendingToPushbullet eff))"
  by (simp add: send_pushbullet_def)

lemma send_pushbullet_disabled:
  "pushbullet_state s \<noteq> 1 \<Longrightarrow> send_pushbullet co s subject summary eff = (Inr (), eff)"
  by (simp add: send_pushbullet_def)

lemma send_discord_default_identity:
  "webhook_state s = 1 \<Longrightarrow>
     send_discord co s subject text summary None eff =
       ((case webhook_discord co subject text summary ''EvickaStudio''
                ''https://avatars.githubusercontent.com/u/68477970'' of
           Some e \<Rightarrow> Inl e | None \<Rightarrow> Inr ()),
        deliver_call (DiscordCall subject text summary ''EvickaStudio''
                        ''https://avatars.githubusercontent.com/u/68477970'')
          (log INFO SendingToDiscord eff))"
  by (simp add: send_discord_def sender_identity_def split: option.splits)


lemma send_discord_resolved_identity:
  "webhook_state s = 1 \<Longrightarrow> core_user_get_users_by_field co uid = Inr (info # users) \<Longrightarrow>
   map_of info ''fullname'' = Some fullname \<Longrightarrow>
   map_of info ''profileimageurl'' = Some profile_url \<Longrightarrow>
     delivered (snd (send_discord co s subject text summary (Some uid) eff)) =
       delivered eff @ [DiscordCall subject text summary fullname profile_url]"
  by (simp add: send_discord_def sender_identity_def user_id_from_def log_def
      deliver_call_def Let_def split: option.splits)

text \<open>
  C1, as the code has it. With both channels enabled, a Pushbullet delivery that raises
  ends \<open>send\<close>: the one \<open>try\<close> block is left, the failure is logged and raised again, and
  the Discord webhook is not called, so the only call made is the one to Pushbullet.
  The Discord webhook gets its call when the Pushbullet delivery returned and the
  identity of the sender is settled: without a sender id it is called with the fixed
  identity, and with a sender id whose lookup finds a user that has a full name and a
  picture it is called with these two.
\<close>

theorem pushbullet_failure_ends_send:
  assumes "pushbullet_state s = 1" and "webhook_state s = 1"
  shows "(send_notification co (pushbullet_key s) subject summary = Some e \<longrightarrow>
            send_body co s subject text summary useridfrom eff =
              (Inl e, log ERROR FailedToSend
                        (deliver_call (PushbulletCall (pushbullet_key s) subject summary)
                          (log INFO SendingToPushbullet eff)))
            \<and> delivered (snd (send_body co s subject text summary useridfrom eff)) =
                delivered eff @ [PushbulletCall (pushbullet_key s) subject summary])
       \<and> (send_notification co (pushbullet_key s) subject summary = None \<longrightarrow>
            delivered (snd (send_body co s subject text summary None eff)) =
              delivered eff @
                [PushbulletCall (pushbullet_key s) subject summary,
                 DiscordCall subject text summary ''EvickaStudio''
                   ''https://avatars.githubusercontent.com/u/68477970''])
       \<and> (send_notification co (pushbullet_key s) subject summary = None
            \<and> core_user_get_users_by_field co uid = Inr (info # users)
            \<and> map_of info ''fullname'' = Some fullname
            \<and> map_of info ''profileimageurl'' = Some profile_url \<longrightarrow>
            delivered (snd (send_body co s subject text summary (Some uid) eff)) =
              delivered eff @
                [PushbulletCall (pushbullet_key s) subject summary,
                 DiscordCall subject text summary fullname profile_url])"
proof (intro conjI impI)
  assume f: "send_notification co (pushbullet_key s) subject summary = Some e"
  show b: "send_body co s subject text summary useridfrom eff =
              (Inl e, log ERROR FailedToSend
                        (deliver_call (PushbulletCall (pushbullet_key s) subject summary)
                          (log INFO SendingToPushbullet eff)))"
    by (simp add: send_body_def send_pushbullet_raises [OF assms(1) f])
  show "delivered (snd (send_body co s subject text summary useridfrom eff)) =
                delivered eff @ [PushbulletCall (pushbullet_key s) subject summary]"
    by (simp add: b log_def deliver_call_def)
next
  assume r: "send_notification co (pushbullet_key s) subject summary = None"
  show "delivered (snd (send_body co s subject text summary None eff)) =
              delivered eff @
                [PushbulletCall (pushbullet_key s) subject summary,
                 DiscordCall subject text summary ''EvickaStudio''
                   ''https://avatars.githubusercontent.com/u/68477970'']"
    by (simp add: send_body_def send_pushbullet_returns [OF assms(1) r]
        send_discord_default_identity [OF assms(2)] log_def deliver_call_def
        split: option.splits)
next
  assume a: "send_notification co (pushbullet_key s) subject summary = None
            \<and> core_user_get_users_by_field co uid = Inr (info # users)
            \<and> map_of info ''fullname'' = Some fullname
            \<and> map_of info ''profileimageurl'' = Some profile_url"
  let ?eff1 = "deliver_call (PushbulletCall (pushbullet_key s) subject summary)
                 (log INFO SendingToPushbullet eff)"
  from a have p: "send_pushbullet co s subject summary eff = (Inr (), ?eff1)"
    by (simp add: send_pushbullet_returns [OF assms(1)])
  from a have u: "core_user_get_users_by_field co uid = Inr (info # users)"
    and fn: "map_of info ''fullname'' = Some fullname"
    and pu: "map_of info ''profileimageurl'' = Some profile_url"
    by simp_all
  have d: "delivered (snd (send_discord co s subject text summary (Some uid) ?eff1)) =
      delivered ?eff1 @ [DiscordCall subject text summary fullname profile_url]"
    by (rule send_discord_resolved_identity [OF assms(2) u fn pu])
  obtain res eff2 where sd: "send_discord co s subject text summary (Some uid) ?eff1 = (res, eff2)"
    by (cases "send_discord co s subject text summary (Some uid) ?eff1") auto
  with d have "delivered eff2 =
      delivered ?eff1 @ [DiscordCall subject text summary fullname profile_url]"
    by simp
  with p sd show "delivered (snd (send_body co s subject text summary (Some uid) eff)) =
              delivered eff @
                [PushbulletCall (pushbullet_key s) subject summary,
                 DiscordCall subject text summary fullname profile_url]"
    by (cases res) (simp_all add: send_body_def log_def deliver_call_def)
qed

theorem pushbullet_failure_ends_send_witness:
  "pushbullet_state example_sender = 1 \<and> webhook_state example_sender = 1
   \<and> send_notification pushbullet_down (pushbullet_key example_sender) ''Grades'' ''new grade''
       = Some (External ''pushbullet unreachable'')
   \<and> send_body pushbullet_down example_sender ''Grades'' ''body'' ''new grade'' (Some 42) no_effects =
       (Inl (External ''pushbullet unreachable''),
        log ERROR FailedToSend
          (deliver_call (PushbulletCall (pushbullet_key example_sender) ''Grades'' ''new grade'')
            (log INFO SendingToPushbullet no_effects)))
   \<and> send_notification working_collaborators (pushbullet_key example_sender) ''Grades'' ''new grade''
       = None
   \<and> delivered (snd (send_body working_collaborators example_sender ''Grades'' ''body''
        ''new grade'' None no_effects)) =
       [PushbulletCall (Some ''o.key'') ''Grades'' ''new grade'',
        DiscordCall ''Grades'' ''body'' ''new grade'' ''EvickaStudio''
          ''https://avatars.githubusercontent.com/u/68477970'']
   \<and> core_user_get_users_by_field working_collaborators 42 =
       Inr [[(''fullname'', ''Ada Lovelace''),
             (''profileimageurl'', ''https://moodle.example/ada.png'')]]
   \<and> delivered (snd (send_body working_collaborators example_sender ''Grades'' ''body''
        ''new grade'' (Some 42) no_effects)) =
       [PushbulletCall (Some ''o.key'') ''Grades'' ''new grade'',
        DiscordCall ''Grades'' ''body'' ''new grade'' ''Ada Lovelace''
          ''https://moodle.example/ada.png'']"
proof -
  have p: "pushbullet_state example_sender = 1" and w: "webhook_state example_sender = 1"
    by (simp_all add: example_sender_def)
  have f: "send_notification pushbullet_down (pushbullet_key example_sender) ''Grades''
             ''new grade'' = Some (External ''pushbullet unreachable'')"
    by (simp add: pushbullet_down_def)
  have r: "send_notification working_collaborators (pushbullet_key example_sender) ''Grades''
             ''new grade'' = None"
    by (simp add: working_collaborators_def)
  have k: "pushbullet_key example_sender = Some ''o.key''"
    by (simp add: example_sender_def)
  have u: "core_user_get_users_by_field working_collaborators 42 =
       Inr ([(''fullname'', ''Ada Lovelace''),
             (''profileimageurl'', ''https://moodle.example/ada.png'')] # [])"
    by (simp add: working_collaborators_def)
  have m: "map_of [(''fullname'', ''Ada Lovelace''),
             (''profileimageurl'', ''https://moodle.example/ada.png'')] ''fullname''
             = Some ''Ada Lovelace''"
    "map_of [(''fullname'', ''Ada Lovelace''),
             (''profileimageurl'', ''https://moodle.example/ada.png'')] ''profileimageurl''
             = Some ''https://moodle.example/ada.png''"
    by simp_all
  from pushbullet_failure_ends_send [of example_sender pushbullet_down "''Grades''"
      "''new grade''" "External ''pushbullet unreachable''" "''body''" "Some 42" no_effects,
      OF p w] f
  have one: "send_body pushbullet_down example_sender ''Grades'' ''body'' ''new grade''
       (Some 42) no_effects =
       (Inl (External ''pushbullet unreachable''),
        log ERROR FailedToSend
          (deliver_call (PushbulletCall (pushbullet_key example_sender) ''Grades'' ''new grade'')
            (log INFO SendingToPushbullet no_effects)))"
    by blast
  from pushbullet_failure_ends_send [of example_sender working_collaborators "''Grades''"
      "''new grade''" "External ''pushbullet unreachable''" "''body''" None no_effects 42
      "[(''fullname'', ''Ada Lovelace''),
        (''profileimageurl'', ''https://moodle.example/ada.png'')]"
      "[]" "''Ada Lovelace''" "''https://moodle.example/ada.png''", OF p w] r u m k
  have two: "delivered (snd (send_body working_collaborators example_sender ''Grades'' ''body''
        ''new grade'' None no_effects)) =
       delivered no_effects @ [PushbulletCall (Some ''o.key'') ''Grades'' ''new grade'',
        DiscordCall ''Grades'' ''body'' ''new grade'' ''EvickaStudio''
          ''https://avatars.githubusercontent.com/u/68477970'']"
    and three: "delivered (snd (send_body working_collaborators example_sender ''Grades''
        ''body'' ''new grade'' (Some 42) no_effects)) =
       delivered no_effects @ [PushbulletCall (Some ''o.key'') ''Grades'' ''new grade'',
        DiscordCall ''Grades'' ''body'' ''new grade'' ''Ada Lovelace''
          ''https://moodle.example/ada.png'']"
    by simp_all
  from one two three p w f r u show ?thesis
    by (simp add: no_effects_def)
qed

theorem discord_not_called_after_pushbullet_failure:
  "pushbullet_state example_sender = 1 \<and> webhook_state example_sender = 1
   \<and> send_notification pushbullet_down (pushbullet_key example_sender) ''Grades'' ''new grade''
       = Some (External ''pushbullet unreachable'')
   \<and> delivered (snd (send_body pushbullet_down example_sender ''Grades'' ''body''
        ''new grade'' None no_effects)) =
       [PushbulletCall (Some ''o.key'') ''Grades'' ''new grade'']"
  by (simp add: send_body_def send_pushbullet_def example_sender_def pushbullet_down_def
      working_collaborators_def no_effects_def log_def deliver_call_def)

text \<open>
  C2, evaluated on the code. When a sender id is given and the lookup finds no user or
  raises, \<open>user_id_from\<close> returns \<open>None\<close> and \<open>send\<close> subscripts it: the TypeError ends
  the \<open>try\<close> block, "Failed to send notification" is logged, and the Discord webhook is
  never called. No fixed identity is substituted on this path. The last two conjuncts
  run the sender of the examples with a user that does not exist and with a lookup that
  raises: the only call delivered is the earlier one to Pushbullet.
\<close>

theorem failed_lookup_ends_send:
  "sender_identity (co\<lparr>core_user_get_users_by_field := (\<lambda>u. Inr [])\<rparr>) (Some uid) eff =
     (Inl NoneSubscript, log INFO (NoUserFound uid) (log DEBUG (FetchingUser uid) eff))
   \<and> sender_identity (co\<lparr>core_user_get_users_by_field := (\<lambda>u. Inl e)\<rparr>) (Some uid) eff =
     (Inl NoneSubscript, log ERROR (UserFetchFailed uid e) (log DEBUG (FetchingUser uid) eff))
   \<and> send_body unknown_user example_sender ''Grades'' ''body'' ''new grade'' (Some 42) no_effects =
     (Inl NoneSubscript,
      \<lparr>slept = [],
       logged = [(INFO, SendingToPushbullet), (INFO, SendingToDiscord),
                 (DEBUG, FetchingUser 42), (INFO, NoUserFound 42), (ERROR, FailedToSend)],
       delivered = [PushbulletCall (Some ''o.key'') ''Grades'' ''new grade'']\<rparr>)
   \<and> send_body lookup_down example_sender ''Grades'' ''body'' ''new grade'' (Some 42) no_effects =
     (Inl NoneSubscript,
      \<lparr>slept = [],
       logged = [(INFO, SendingToPushbullet), (INFO, SendingToDiscord),
                 (DEBUG, FetchingUser 42),
                 (ERROR, UserFetchFailed 42 (External ''moodle unreachable'')),
                 (ERROR, FailedToSend)],
       delivered = [PushbulletCall (Some ''o.key'') ''Grades'' ''new grade'']\<rparr>)"
proof (intro conjI)
  show "sender_identity (co\<lparr>core_user_get_users_by_field := (\<lambda>u. Inr [])\<rparr>) (Some uid) eff =
     (Inl NoneSubscript, log INFO (NoUserFound uid) (log DEBUG (FetchingUser uid) eff))"
    by (simp add: sender_identity_def user_id_from_def)
  show "sender_identity (co\<lparr>core_user_get_users_by_field := (\<lambda>u. Inl e)\<rparr>) (Some uid) eff =
     (Inl NoneSubscript, log ERROR (UserFetchFailed uid e) (log DEBUG (FetchingUser uid) eff))"
    by (simp add: sender_identity_def user_id_from_def)
  show "send_body unknown_user example_sender ''Grades'' ''body'' ''new grade'' (Some 42) no_effects =
     (Inl NoneSubscript,
      \<lparr>slept = [],
       logged = [(INFO, SendingToPushbullet), (INFO, SendingToDiscord),
                 (DEBUG, FetchingUser 42), (INFO, NoUserFound 42), (ERROR, FailedToSend)],
       delivered = [PushbulletCall (Some ''o.key'') ''Grades'' ''new grade'']\<rparr>)"
    by (simp add: send_body_def send_pushbullet_def send_discord_def sender_identity_def
        user_id_from_def unknown_user_def working_collaborators_def example_sender_def
        no_effects_def log_def deliver_call_def)
  show "send_body lookup_down example_sender ''Grades'' ''body'' ''new grade'' (Some 42) no_effects =
     (Inl NoneSubscript,
      \<lparr>slept = [],
       logged = [(INFO, SendingToPushbullet), (INFO, SendingToDiscord),
                 (DEBUG, FetchingUser 42),
                 (ERROR, UserFetchFailed 42 (External ''moodle unreachable'')),
                 (ERROR, FailedToSend)],
       delivered = [PushbulletCall (Some ''o.key'') ''Grades'' ''new grade'']\<rparr>)"
    by (simp add: send_body_def send_pushbullet_def send_discord_def sender_identity_def
        user_id_from_def lookup_down_def working_collaborators_def example_sender_def
        no_effects_def log_def deliver_call_def)
qed



section \<open>Construction\<close>

lemma get_config_value_absent:
  "config section key = None \<Longrightarrow>
     get_config_value config section key = Inl (ConfigValueError key section)"
  by (simp add: get_config_value_def)

lemma handler_login_absent:
  "config ''moodle'' ''MOODLE_USERNAME'' = None \<or> config ''moodle'' ''MOODLE_PASSWORD'' = None \<Longrightarrow>
     isl (fst (handler_login co config eff))"
  by (auto simp: handler_login_def get_config_value_def split: option.splits sum.splits)

lemma handler_init_absent:
  "config ''moodle'' ''MOODLE_URL'' = None \<or> config ''moodle'' ''MOODLE_USERNAME'' = None
     \<or> config ''moodle'' ''MOODLE_PASSWORD'' = None \<Longrightarrow>
     isl (fst (handler_init co config eff))"
proof -
  assume a: "config ''moodle'' ''MOODLE_URL'' = None \<or> config ''moodle'' ''MOODLE_USERNAME'' = None
     \<or> config ''moodle'' ''MOODLE_PASSWORD'' = None"
  show ?thesis
  proof (cases "config ''moodle'' ''MOODLE_URL'' = None")
    case True
    then show ?thesis by (simp add: handler_init_def get_config_value_absent)
  next
    case False
    with a have "isl (fst (handler_login co config eff))"
      by (intro handler_login_absent) simp
    then obtain e eff1 where "handler_login co config eff = (Inl e, eff1)"
      by (cases "handler_login co config eff") (auto simp: isl_def)
    then show ?thesis
      by (simp add: handler_init_def split: sum.splits option.splits)
  qed
qed

lemma handler_login_slept: "slept (snd (handler_login co config eff)) = slept eff"
  by (simp add: handler_login_def log_def split: sum.splits)

lemma handler_init_slept: "slept (snd (handler_init co config eff)) = slept eff"
proof -
  obtain r eff1 where l: "handler_login co config eff = (r, eff1)"
    by (cases "handler_login co config eff") auto
  with handler_login_slept [of co config eff] have "slept eff1 = slept eff" by simp
  with l show ?thesis
    by (simp add: handler_init_def log_def split: sum.splits option.splits prod.splits)
qed

lemma without_key_other:
  "(s, k) \<noteq> (section, key) \<Longrightarrow> without_key section key config s k = config s k"
  by (auto simp: without_key_def)

lemma get_config_value_without_key:
  "(s, k) \<noteq> (section, key) \<Longrightarrow>
     get_config_value (without_key section key config) s k = get_config_value config s k"
  by (simp add: get_config_value_def without_key_other)

lemma handler_login_without_pushbullet_key:
  "handler_login co (without_key ''pushbullet'' ''PUSHBULLET_API_KEY'' config) eff =
     handler_login co config eff"
  by (simp add: handler_login_def get_config_value_without_key cong: sum.case_cong)

lemma handler_init_without_pushbullet_key:
  "handler_init co (without_key ''pushbullet'' ''PUSHBULLET_API_KEY'' config) eff =
     handler_init co config eff"
  by (simp add: handler_init_def handler_login_without_pushbullet_key
      get_config_value_without_key cong: sum.case_cong option.case_cong)

text \<open>
  C9, as the code has it. An absent \<open>MOODLE_URL\<close>, \<open>MOODLE_USERNAME\<close> or
  \<open>MOODLE_PASSWORD\<close> makes the construction of the handler raise; for the URL it is the
  ValueError of \<open>_get_config_value\<close>, logged by \<open>__init__\<close> and raised again. The
  constructor never sleeps, so nothing is retried, and no handler object exists to poll
  with. The body of the sender's constructor raises as well when one of these keys or
  one of the two \<open>ENABLED\<close> flags is absent. The Pushbullet key is not checked at
  construction: whether the body raises is the same with and without it. (A result
  \<open>Inl e\<close>, which \<open>isl\<close> tests for, is the exception \<open>e\<close> raised.)
\<close>

theorem absent_key_at_construction:
  "(config ''moodle'' ''MOODLE_URL'' = None \<longrightarrow>
      handler_init co config eff =
        (Inl (ConfigValueError ''MOODLE_URL'' ''moodle''),
         log ERROR (InitializationFailed (ConfigValueError ''MOODLE_URL'' ''moodle'')) eff))
   \<and> (config ''moodle'' ''MOODLE_URL'' = None \<or> config ''moodle'' ''MOODLE_USERNAME'' = None
        \<or> config ''moodle'' ''MOODLE_PASSWORD'' = None \<longrightarrow>
      isl (fst (handler_init co config eff))
      \<and> isl (fst (sender_init_body co config bname thumb eff)))
   \<and> slept (snd (handler_init co config eff)) = slept eff
   \<and> (config ''pushbullet'' ''ENABLED'' = None \<or> config ''discord'' ''ENABLED'' = None \<longrightarrow>
      isl (fst (sender_init_body co config bname thumb eff)))
   \<and> isl (fst (sender_init_body co
              (without_key ''pushbullet'' ''PUSHBULLET_API_KEY'' config) bname thumb eff))
       = isl (fst (sender_init_body co config bname thumb eff))"
proof (intro conjI impI)
  assume "config ''moodle'' ''MOODLE_URL'' = None"
  then show "handler_init co config eff =
        (Inl (ConfigValueError ''MOODLE_URL'' ''moodle''),
         log ERROR (InitializationFailed (ConfigValueError ''MOODLE_URL'' ''moodle'')) eff)"
    by (simp add: handler_init_def get_config_value_absent)
next
  assume a: "config ''moodle'' ''MOODLE_URL'' = None \<or> config ''moodle'' ''MOODLE_USERNAME'' = None
        \<or> config ''moodle'' ''MOODLE_PASSWORD'' = None"
  then show h: "isl (fst (handler_init co config eff))"
    by (rule handler_init_absent)
  then obtain e eff1 where "handler_init co config eff = (Inl e, eff1)"
    by (cases "handler_init co config eff") (auto simp: isl_def)
  then show "isl (fst (sender_init_body co config bname thumb eff))"
    by (simp add: sender_init_body_def split: sum.splits option.splits)
next
  show "slept (snd (handler_init co config eff)) = slept eff"
    by (rule handler_init_slept)
next
  assume "config ''pushbullet'' ''ENABLED'' = None \<or> config ''discord'' ''ENABLED'' = None"
  then show "isl (fst (sender_init_body co config bname thumb eff))"
    by (auto simp: sender_init_body_def py_int_def split: sum.splits option.splits)
next
  show "isl (fst (sender_init_body co
              (without_key ''pushbullet'' ''PUSHBULLET_API_KEY'' config) bname thumb eff))
       = isl (fst (sender_init_body co config bname thumb eff))"
    by (simp add: sender_init_body_def handler_init_without_pushbullet_key
        without_key_other split: sum.splits option.splits prod.splits
        cong: sum.case_cong option.case_cong)
qed

theorem absent_key_at_construction_witness:
  "without_key ''moodle'' ''MOODLE_URL'' example_config ''moodle'' ''MOODLE_URL'' = None
   \<and> handler_init working_collaborators (without_key ''moodle'' ''MOODLE_URL'' example_config)
        no_effects =
       (Inl (ConfigValueError ''MOODLE_URL'' ''moodle''),
        log ERROR (InitializationFailed (ConfigValueError ''MOODLE_URL'' ''moodle'')) no_effects)
   \<and> without_key ''moodle'' ''MOODLE_PASSWORD'' example_config ''moodle'' ''MOODLE_PASSWORD'' = None
   \<and> isl (fst (handler_init working_collaborators
        (without_key ''moodle'' ''MOODLE_PASSWORD'' example_config) no_effects))
   \<and> without_key ''discord'' ''ENABLED'' example_config ''discord'' ''ENABLED'' = None
   \<and> isl (fst (sender_init_body working_collaborators
        (without_key ''discord'' ''ENABLED'' example_config) ''MoodleMate'' ''thumb.png''
        no_effects))"
proof -
  have u: "without_key ''moodle'' ''MOODLE_URL'' example_config ''moodle'' ''MOODLE_URL'' = None"
    and p: "without_key ''moodle'' ''MOODLE_PASSWORD'' example_config ''moodle''
              ''MOODLE_PASSWORD'' = None"
    and d: "without_key ''discord'' ''ENABLED'' example_config ''discord'' ''ENABLED'' = None"
    by (simp_all add: without_key_def)
  from absent_key_at_construction [of "without_key ''moodle'' ''MOODLE_URL'' example_config"
      working_collaborators no_effects "''MoodleMate''" "''thumb.png''"]
    absent_key_at_construction [of "without_key ''moodle'' ''MOODLE_PASSWORD'' example_config"
      working_collaborators no_effects "''MoodleMate''" "''thumb.png''"]
    absent_key_at_construction [of "without_key ''discord'' ''ENABLED'' example_config"
      working_collaborators no_effects "''MoodleMate''" "''thumb.png''"]
    u p d
  show ?thesis by blast
qed

theorem sender_built_without_pushbullet_key:
  "without_key ''pushbullet'' ''PUSHBULLET_API_KEY'' example_config
      ''pushbullet'' ''PUSHBULLET_API_KEY'' = None
   \<and> sender_init_body working_collaborators
       (without_key ''pushbullet'' ''PUSHBULLET_API_KEY'' example_config)
       ''MoodleMate'' ''thumb.png'' no_effects =
      (Inr (example_sender\<lparr>pushbullet_key := None\<rparr>), no_effects)"
  by (simp add: sender_init_body_def handler_init_def handler_login_def get_config_value_def
      py_int_def without_key_def example_config_def working_collaborators_def
      example_sender_def example_handler_def)

end
